theory Spec2Isabelle
  imports Main
begin

section \<open>Python values, exceptions and the collaborators of \<^verbatim>\<open>pyspark_ai/tool.py\<close>\<close>

text \<open>
  The tools of \<^verbatim>\<open>tool.py\<close> are adapters: each forwards a string to the Spark SQL
  engine or to the vector-store library and returns a string, or raises. A raised
  exception is the \<open>Inl\<close> of a sum, a returned value its \<open>Inr\<close>.
  \<open>PySparkException m\<close> stands for an instance of \<^verbatim>\<open>pyspark.errors.PySparkException\<close>
  or of a subclass, whose \<^verbatim>\<open>str()\<close> is \<open>m\<close>; \<open>OtherError\<close> is any exception of a class
  that the source neither raises nor catches by name.
\<close>

datatype exn =
    PySparkException string
  | ValueError string
  | NotImplementedError string
  | TypeError
  | IndexError
  | OtherError string

text \<open>A Python object is known here by what \<^verbatim>\<open>str()\<close> returns on it.\<close>

datatype pyobj = PyObj string

fun py_str :: "pyobj \<Rightarrow> string" where
  "py_str (PyObj s) = s"

text \<open>
  A row maps column names to values; a data frame is known by what \<^verbatim>\<open>collect()\<close>
  does on it (Spark evaluates lazily, so \<^verbatim>\<open>collect()\<close> can raise too).
\<close>

type_synonym row = "(string \<times> pyobj) list"

datatype dataframe = DataFrame "exn + row list"

fun collect :: "dataframe \<Rightarrow> exn + row list" where
  "collect (DataFrame r) = r"

text \<open>
  The collaborators, as the source calls them. \<open>'idx\<close> is the library's vector index.
  \<^item> \<open>errors_importable\<close>: \<^verbatim>\<open>from pyspark.errors import PySparkException\<close> succeeds;
  \<^item> \<open>sql\<close>: \<^verbatim>\<open>spark.sql(command)\<close>;
  \<^item> \<open>get_dataframe_results\<close>: \<^verbatim>\<open>SparkUtils.get_dataframe_results(df)\<close>;
  \<^item> \<open>extract_code_blocks\<close>: \<^verbatim>\<open>AIUtils.extract_code_blocks(query)\<close>;
  \<^item> \<open>from_texts\<close>: \<^verbatim>\<open>FAISS.from_texts(col_lst, HuggingFaceBgeEmbeddings())\<close>;
  \<^item> \<open>save_local\<close>: the exception \<^verbatim>\<open>vector_db.save_local(path)\<close> raises, if any;
  \<^item> \<open>similarity_search\<close>: \<^verbatim>\<open>vector_db.similarity_search(search_text)\<close>, each returned
    document given by its \<^verbatim>\<open>page_content\<close>.
\<close>

record 'idx env =
  errors_importable :: bool
  sql :: "string \<Rightarrow> exn + dataframe"
  get_dataframe_results :: "dataframe \<Rightarrow> exn + pyobj"
  extract_code_blocks :: "string \<Rightarrow> exn + string list"
  from_texts :: "string list option \<Rightarrow> exn + 'idx"
  save_local :: "string \<Rightarrow> exn option"
  similarity_search :: "'idx \<Rightarrow> string \<Rightarrow> exn + string list"

text \<open>
  What a call leaves behind: the files under the paths the vector store uses, and the
  requests sent to the collaborators, in the order they were sent.
\<close>

datatype 'idx entry = Absent | Index 'idx | NotIndex

datatype event =
    SqlQuery string
  | BuildIndex "string list option"
  | LoadIndex string
  | SaveIndex string
  | Search string

record 'idx world =
  fs :: "string \<Rightarrow> 'idx entry"
  log :: "event list"

definition emit :: "event \<Rightarrow> 'idx world \<Rightarrow> 'idx world" where
  "emit e w = w\<lparr>log := log w @ [e]\<rparr>"

definition sql_events :: "event list \<Rightarrow> string list" where
  "sql_events es = concat (map (\<lambda>e. case e of SqlQuery q \<Rightarrow> [q] | _ \<Rightarrow> []) es)"

definition build_events :: "event list \<Rightarrow> string list option list" where
  "build_events es = concat (map (\<lambda>e. case e of BuildIndex c \<Rightarrow> [c] | _ \<Rightarrow> []) es)"

text \<open>Python's truth value of an \<^verbatim>\<open>Optional[str]\<close>: \<^verbatim>\<open>None\<close> and \<^verbatim>\<open>""\<close> are false.\<close>

fun truthy :: "string option \<Rightarrow> bool" where
  "truthy None = False"
| "truthy (Some s) = (s \<noteq> [])"

text \<open>\<^verbatim>\<open>os.path.exists(path)\<close>\<close>

definition path_exists :: "'idx world \<Rightarrow> string \<Rightarrow> bool" where
  "path_exists w p = (fs w p \<noteq> Absent)"

section \<open>QuerySparkSQLTool\<close>

definition import_error_message :: string where
  "import_error_message =
     ''pyspark is not installed. Please install it with `pip install pyspark`''"

definition QuerySparkSQLTool_run_command ::
  "'idx env \<Rightarrow> 'idx world \<Rightarrow> string \<Rightarrow> (exn + string) \<times> 'idx world" where
  "QuerySparkSQLTool_run_command env w command =
     (let w1 = emit (SqlQuery command) w in
      case sql env command of
        Inl e \<Rightarrow> (Inl e, w1)
      | Inr df \<Rightarrow>
          (case get_dataframe_results env df of
             Inl e \<Rightarrow> (Inl e, w1)
           | Inr v \<Rightarrow> (Inr (py_str v), w1)))"

definition QuerySparkSQLTool_run_no_throw ::
  "'idx env \<Rightarrow> 'idx world \<Rightarrow> string \<Rightarrow> (exn + string) \<times> 'idx world" where
  "QuerySparkSQLTool_run_no_throw env w command =
     (if \<not> errors_importable env then (Inl (ValueError import_error_message), w)
      else
        (case QuerySparkSQLTool_run_command env w command of
           (Inl (PySparkException m), w') \<Rightarrow> (Inr (''Error: '' @ m), w')
         | (Inl e, w') \<Rightarrow> (Inl e, w')
         | (Inr s, w') \<Rightarrow> (Inr s, w')))"

definition QuerySparkSQLTool_run ::
  "'idx env \<Rightarrow> 'idx world \<Rightarrow> string \<Rightarrow> (exn + string) \<times> 'idx world" where
  "QuerySparkSQLTool_run env w query = QuerySparkSQLTool_run_no_throw env w query"

definition QuerySparkSQLTool_arun ::
  "'idx env \<Rightarrow> 'idx world \<Rightarrow> string \<Rightarrow> (exn + string) \<times> 'idx world" where
  "QuerySparkSQLTool_arun env w query =
     (Inl (NotImplementedError ''QuerySqlDbTool does not support async''), w)"

section \<open>QueryValidationTool\<close>

definition QueryValidationTool_run ::
  "'idx env \<Rightarrow> 'idx world \<Rightarrow> string \<Rightarrow> (exn + string) \<times> 'idx world" where
  "QueryValidationTool_run env w query =
     (if \<not> errors_importable env then (Inl (ValueError import_error_message), w)
      else
        (case extract_code_blocks env query of
           Inl (PySparkException m) \<Rightarrow> (Inr (''Error: '' @ m), w)
         | Inl e \<Rightarrow> (Inl e, w)
         | Inr [] \<Rightarrow> (Inl IndexError, w)
         | Inr (actual_query # _) \<Rightarrow>
             (let w1 = emit (SqlQuery actual_query) w in
              case sql env actual_query of
                Inl (PySparkException m) \<Rightarrow> (Inr (''Error: '' @ m), w1)
              | Inl e \<Rightarrow> (Inl e, w1)
              | Inr df \<Rightarrow> (Inr ''OK'', w1))))"

definition QueryValidationTool_arun ::
  "'idx env \<Rightarrow> 'idx world \<Rightarrow> string \<Rightarrow> (exn + string) \<times> 'idx world" where
  "QueryValidationTool_arun env w args =
     (Inl (NotImplementedError ''ListTablesSqlDbTool does not support async''), w)"

section \<open>VectorSearchUtil\<close>

text \<open>
  \<^verbatim>\<open>FAISS.load_local(path, ...)\<close> reads the index stored under the path; on a path that
  holds something else the library raises.
\<close>

definition load_local :: "'idx world \<Rightarrow> string \<Rightarrow> exn + 'idx" where
  "load_local w p =
     (case fs w p of
        Index i \<Rightarrow> Inr i
      | _ \<Rightarrow> Inl (OtherError ''load_local''))"

text \<open>Lines 122-123: the search, then \<^verbatim>\<open>docs[0].page_content\<close>.\<close>

definition search_first ::
  "'idx env \<Rightarrow> 'idx \<Rightarrow> string \<Rightarrow> 'idx world \<Rightarrow> (exn + string) \<times> 'idx world" where
  "search_first env vector_db search_text w =
     (let w1 = emit (Search search_text) w in
      case similarity_search env vector_db search_text of
        Inl e \<Rightarrow> (Inl e, w1)
      | Inr [] \<Rightarrow> (Inl IndexError, w1)
      | Inr (d # _) \<Rightarrow> (Inr d, w1))"

definition vector_similarity_search ::
  "'idx env \<Rightarrow> string list option \<Rightarrow> string option \<Rightarrow> string \<Rightarrow> 'idx world
     \<Rightarrow> (exn + string) \<times> 'idx world" where
  "vector_similarity_search env col_lst vector_store_path search_text w =
     (if truthy vector_store_path \<and> path_exists w (the vector_store_path) then
        (let p = the vector_store_path; w1 = emit (LoadIndex p) w in
         case load_local w p of
           Inl e \<Rightarrow> (Inl e, w1)
         | Inr vector_db \<Rightarrow> search_first env vector_db search_text w1)
      else
        (let w1 = emit (BuildIndex col_lst) w in
         case from_texts env col_lst of
           Inl e \<Rightarrow> (Inl e, w1)
         | Inr vector_db \<Rightarrow>
             (if truthy vector_store_path then
                (let p = the vector_store_path; w2 = emit (SaveIndex p) w1 in
                 case save_local env p of
                   Some e \<Rightarrow> (Inl e, w2)
                 | None \<Rightarrow>
                     search_first env vector_db search_text
                       (w2\<lparr>fs := (fs w2)(p := Index vector_db)\<rparr>))
              else search_first env vector_db search_text w1)))"

section \<open>SimilarValueTool\<close>

text \<open>\<^verbatim>\<open>inputs.split("|")\<close>: Python's split on a one-character separator.\<close>

fun split_on :: "char \<Rightarrow> string \<Rightarrow> string list" where
  "split_on c [] = [[]]"
| "split_on c (x # xs) =
     (if x = c then [] # split_on c xs
      else (case split_on c xs of
              [] \<Rightarrow> [[x]]
            | y # ys \<Rightarrow> (x # y) # ys))"

text \<open>
  \<^verbatim>\<open>row[col]\<close> on a Spark row raises when the row has no such field;
  line 154 is the comprehension \<^verbatim>\<open>[str(row[col]) for row in new_df.collect()]\<close>.
\<close>

definition row_get :: "row \<Rightarrow> string \<Rightarrow> exn + pyobj" where
  "row_get r col = (case map_of r col of None \<Rightarrow> Inl (ValueError col) | Some v \<Rightarrow> Inr v)"

fun column_strs :: "string \<Rightarrow> row list \<Rightarrow> exn + string list" where
  "column_strs col [] = Inr []"
| "column_strs col (r # rs) =
     (case row_get r col of
        Inl e \<Rightarrow> Inl e
      | Inr v \<Rightarrow>
          (case column_strs col rs of
             Inl e \<Rightarrow> Inl e
           | Inr vs \<Rightarrow> Inr (py_str v # vs)))"

definition distinct_query :: "string \<Rightarrow> string \<Rightarrow> string" where
  "distinct_query col temp_name = ''select distinct `'' @ col @ ''` from '' @ temp_name"

definition SimilarValueTool_run ::
  "'idx env \<Rightarrow> string option \<Rightarrow> 'idx world \<Rightarrow> string \<Rightarrow> (exn + string) \<times> 'idx world" where
  "SimilarValueTool_run env vector_store_dir w inputs =
     (case split_on CHR ''|'' inputs of
        search_text # col # temp_name # _ \<Rightarrow>
          (if \<not> truthy vector_store_dir then
             (let w1 = emit (SqlQuery (distinct_query col temp_name)) w in
              case sql env (distinct_query col temp_name) of
                Inl e \<Rightarrow> (Inl e, w1)
              | Inr new_df \<Rightarrow>
                  (case collect new_df of
                     Inl e \<Rightarrow> (Inl e, w1)
                   | Inr rows \<Rightarrow>
                       (case column_strs col rows of
                          Inl e \<Rightarrow> (Inl e, w1)
                        | Inr col_lst \<Rightarrow>
                            (case vector_store_dir of
                               None \<Rightarrow> (Inl TypeError, w1)
                             | Some d \<Rightarrow>
                                 vector_similarity_search env (Some col_lst)
                                   (Some (d @ temp_name @ ''_'' @ col)) search_text w1))))
           else vector_similarity_search env None None search_text w)
      | _ \<Rightarrow> (Inl IndexError, w))"

definition SimilarValueTool_arun ::
  "'idx env \<Rightarrow> string option \<Rightarrow> 'idx world \<Rightarrow> string \<Rightarrow> (exn + string) \<times> 'idx world" where
  "SimilarValueTool_arun env vector_store_dir w args =
     (Inl (NotImplementedError ''SimilarityTool does not support async''), w)"

section \<open>Helpers that \<^verbatim>\<open>tool.py\<close> imports from the rest of the package\<close>

text \<open>Modelled from the spec: \<^verbatim>\<open>AIUtils.extract_code_blocks\<close> (module \<^verbatim>\<open>pyspark_ai/ai_utils.py\<close>,
  which is not among the sources). The specification says that the input "may contain
  markup-delimited code blocks (e.g., fenced blocks)", that the tool takes "the first such
  block's contents", "discarding any surrounding prose", and that without a fenced block
  the behaviour "depends on the extraction helper's fallback". A fence is three
  backquotes.
\<close>

definition fence :: string where
  "fence = ''```''"

text \<open>Modelled from the spec: the text is cut at each fence, scanning from the left; the
  pieces are the prose and the contents of the blocks, in turn.
\<close>

fun split_fence :: "string \<Rightarrow> string list" where
  "split_fence [] = [[]]"
| "split_fence (c # cs) =
     (if take 3 (c # cs) = ''```'' then [] # split_fence (drop 2 cs)
      else (case split_fence cs of
              [] \<Rightarrow> [[c]]
            | y # ys \<Rightarrow> (c # y) # ys))"

text \<open>Modelled from the spec: the contents of the fenced blocks. Of the pieces between the
  fences, every second one lies inside a block, provided a closing fence follows it.
\<close>

fun blocks_of :: "string list \<Rightarrow> string list" where
  "blocks_of (pre # body # post # rest) = body # blocks_of (post # rest)"
| "blocks_of _ = []"

text \<open>Modelled from the spec: \<^verbatim>\<open>AIUtils.extract_code_blocks\<close> returns the contents of the
  fenced blocks, in order; what it does on a text without a block is the parameter
  \<open>fallback\<close>.
\<close>

definition extract_code_blocks_spec ::
  "(string \<Rightarrow> exn + string list) \<Rightarrow> string \<Rightarrow> exn + string list" where
  "extract_code_blocks_spec fallback text =
     (case blocks_of (split_fence text) of
        [] \<Rightarrow> fallback text
      | b # bs \<Rightarrow> Inr (b # bs))"

text \<open>Modelled from the spec: \<^verbatim>\<open>SparkUtils.get_dataframe_results\<close> (module
  \<^verbatim>\<open>pyspark_ai/spark_utils.py\<close>, which is not among the sources). The specification says
  that the tool "serializes the returned rows into a single string (empty string if zero
  rows)"; the docstring of \<^verbatim>\<open>_run_no_throw\<close> says the same. How one or more rows are
  written is the parameter \<open>fmt\<close>. Collecting the rows can raise.
\<close>

definition get_dataframe_results_spec ::
  "(row list \<Rightarrow> string) \<Rightarrow> dataframe \<Rightarrow> exn + pyobj" where
  "get_dataframe_results_spec fmt df =
     (case collect df of
        Inl e \<Rightarrow> Inl e
      | Inr rows \<Rightarrow> Inr (PyObj (if rows = [] then [] else fmt rows)))"

text \<open>
  \<open>fence_free s\<close>: no fence begins inside \<open>s\<close> when a fence follows \<open>s\<close>; that is, \<open>s\<close>
  contains no three backquotes in a row and does not end in a backquote.
\<close>

fun fence_free :: "string \<Rightarrow> bool" where
  "fence_free [] = True"
| "fence_free (c # cs) = (take 3 (c # cs @ ''```'') \<noteq> ''```'' \<and> fence_free cs)"

section \<open>A concrete engine and vector store\<close>

text \<open>
  A small engine over one view \<^verbatim>\<open>employees\<close> with the names Alice and Bob, and a vector
  store whose index is the list of its texts: building it from no list raises
  \<^verbatim>\<open>TypeError\<close>, from an empty list \<^verbatim>\<open>IndexError\<close>; a search ranks the texts equal to
  the search text first and returns at most four.
\<close>

definition example_rows :: "row list" where
  "example_rows = [[(''name'', PyObj ''Alice'')], [(''name'', PyObj ''Bob'')]]"

definition example_sql :: "string \<Rightarrow> exn + dataframe" where
  "example_sql q =
     (if q = ''select distinct `name` from employees'' then Inr (DataFrame (Inr example_rows))
      else if q = ''select name from employees where 1 = 0'' then Inr (DataFrame (Inr []))
      else if q = ''select 1'' then Inr (DataFrame (Inr [[(''1'', PyObj ''1'')]]))
      else if q = ''select 1/0'' then Inr (DataFrame (Inl (PySparkException ''DIVIDE_BY_ZERO'')))
      else if q = ''select slow'' then Inr (DataFrame (Inl (OtherError ''Py4JNetworkError'')))
      else if q = ''crash'' then Inl (OtherError ''ConnectionError'')
      else Inl (PySparkException ''PARSE_SYNTAX_ERROR''))"

definition example_from_texts :: "string list option \<Rightarrow> exn + string list" where
  "example_from_texts c =
     (case c of None \<Rightarrow> Inl TypeError | Some [] \<Rightarrow> Inl IndexError | Some ts \<Rightarrow> Inr ts)"

definition example_search :: "string list \<Rightarrow> string \<Rightarrow> exn + string list" where
  "example_search idx q = Inr (take 4 (filter (\<lambda>t. t = q) idx @ filter (\<lambda>t. t \<noteq> q) idx))"

definition example_env :: "string list env" where
  "example_env =
     \<lparr> errors_importable = True,
       sql = example_sql,
       get_dataframe_results = get_dataframe_results_spec (\<lambda>rows. concat (map (concat \<circ> map (py_str \<circ> snd)) rows)),
       extract_code_blocks = extract_code_blocks_spec (\<lambda>t. Inr [t]),
       from_texts = example_from_texts,
       save_local = (\<lambda>p. None),
       similarity_search = example_search \<rparr>"

definition example_world :: "string list world" where
  "example_world = \<lparr> fs = (\<lambda>p. Absent), log = [] \<rparr>"

text \<open>
The same world after an index for \<^verbatim>\<open>employees.name\<close> has been saved.
\<close>

definition stored_world :: "string list world" where
  "stored_world =
     \<lparr> fs = (\<lambda>p. Absent)(''/tmp/vs/employees_name'' := Index [''Alice'', ''Bob'']), log = [] \<rparr>"

section \<open>Basic facts\<close>

lemma sql_events_emit [simp]:
  "sql_events (log (emit e w)) =
     sql_events (log w) @ (case e of SqlQuery q \<Rightarrow> [q] | _ \<Rightarrow> [])"
  by (simp add: sql_events_def emit_def)

lemma build_events_emit [simp]:
  "build_events (log (emit e w)) =
     build_events (log w) @ (case e of BuildIndex c \<Rightarrow> [c] | _ \<Rightarrow> [])"
  by (simp add: build_events_def emit_def)

lemma fs_emit [simp]: "fs (emit e w) = fs w"
  by (simp add: emit_def)

text \<open>
The search changes nothing but the log, and its result does not depend on the world.
\<close>

lemma search_first_world:
  "snd (search_first env i q w) = emit (Search q) w"
  by (simp add: search_first_def Let_def split: sum.splits list.splits)

lemma search_first_fst:
  "fst (search_first env i q w) = fst (search_first env i q w')"
  by (simp add: search_first_def Let_def split: sum.splits list.splits)

text \<open>
The vector search sends nothing to the SQL engine.
\<close>

lemma vector_similarity_search_no_sql:
  "sql_events (log (snd (vector_similarity_search env c p q w))) = sql_events (log w)"
  by (simp add: vector_similarity_search_def Let_def search_first_world
           split: sum.splits option.splits)

text \<open>
The two ways through \<^verbatim>\<open>vector_similarity_search\<close> when a path is given.
\<close>

lemma vector_similarity_search_load:
  assumes "p \<noteq> []" and "fs w p = Index i"
  shows "vector_similarity_search env corpus (Some p) q w
           = search_first env i q (emit (LoadIndex p) w)"
  using assms
  by (simp add: vector_similarity_search_def path_exists_def load_local_def Let_def)

lemma vector_similarity_search_build_save:
  assumes "p \<noteq> []" and "fs w p = Absent"
    and "from_texts env corpus = Inr i" and "save_local env p = None"
  shows "vector_similarity_search env corpus (Some p) q w
           = search_first env i q
               ((emit (SaveIndex p) (emit (BuildIndex corpus) w))
                  \<lparr>fs := (fs w)(p := Index i)\<rparr>)"
  using assms
  by (simp add: vector_similarity_search_def path_exists_def Let_def)

text \<open>
Cutting a text at its first fence.
\<close>

lemma split_fence_nonempty: "split_fence s \<noteq> []"
  by (induction s rule: split_fence.induct) (auto split: list.splits)

lemma split_fence_block:
  "fence_free s \<Longrightarrow> split_fence (s @ fence @ rest) = s # split_fence rest"
proof (induction s)
  case Nil
  then show ?case by (simp add: fence_def)
next
  case (Cons c cs)
  have "take 3 (c # cs @ ''```'' @ rest) = take 3 (c # cs @ ''```'')"
    by (cases cs; cases "tl cs"; simp)
  with Cons show ?case by (simp add: fence_def)
qed

lemma extract_first_block:
  assumes "fence_free pre" and "fence_free body"
  shows "extract_code_blocks_spec fallback (pre @ fence @ body @ fence @ post)
           = Inr (body # blocks_of (split_fence post))"
proof -
  obtain x xs where post: "split_fence post = x # xs"
    using split_fence_nonempty [of post] by (cases "split_fence post") auto
  have "split_fence (pre @ fence @ body @ fence @ post) = pre # body # split_fence post"
    using assms by (simp add: split_fence_block)
  then show ?thesis
    by (simp add: extract_code_blocks_spec_def post)
qed

text \<open>
  With \<^verbatim>\<open>vector_store_dir = None\<close> the tool never returns a value: either the input has
  too few fields, or the engine or a row raises, or line 155 adds \<^verbatim>\<open>None\<close> to a string.
  With \<^verbatim>\<open>vector_store_dir = ""\<close> line 155 succeeds, and the index path is the bare
  \<^verbatim>\<open>temp_name + "_" + col\<close>.
\<close>

lemma SimilarValueTool_run_None_never_returns:
  "fst (SimilarValueTool_run env None w inputs) \<noteq> Inr v"
  by (simp add: SimilarValueTool_run_def Let_def split: list.splits sum.splits)

lemma SimilarValueTool_run_empty_dir:
  assumes "split_on CHR ''|'' inputs = [search_text, col, temp_name]"
    and "sql env (distinct_query col temp_name) = Inr df"
    and "collect df = Inr rows"
    and "column_strs col rows = Inr col_lst"
  shows "SimilarValueTool_run env (Some []) w inputs
           = vector_similarity_search env (Some col_lst) (Some (temp_name @ ''_'' @ col))
               search_text (emit (SqlQuery (distinct_query col temp_name)) w)"
  using assms by (simp add: SimilarValueTool_run_def Let_def)

text \<open>
  Where \<^verbatim>\<open>pyspark.errors\<close> cannot be imported, both SQL tools raise \<^verbatim>\<open>ValueError\<close>
  before anything is sent to the engine.
\<close>

lemma missing_pyspark_errors_raises_ValueError:
  assumes "\<not> errors_importable env"
  shows "QuerySparkSQLTool_run env w q = (Inl (ValueError import_error_message), w)"
    and "QueryValidationTool_run env w q = (Inl (ValueError import_error_message), w)"
  using assms
  by (simp_all add: QuerySparkSQLTool_run_def QuerySparkSQLTool_run_no_throw_def
        QueryValidationTool_run_def)

section \<open>QuerySparkSQLTool: errors of the engine\<close>

text \<open>
  Claim C1. Whenever the SQL engine raises its exception on a query, be it in
  \<^verbatim>\<open>spark.sql\<close> or when the rows are collected, \<^verbatim>\<open>_run\<close> and \<^verbatim>\<open>_run_no_throw\<close> return
  the string \<^verbatim>\<open>"Error: "\<close> followed by the engine's message; nothing is raised. The
  engine's exception class is \<^verbatim>\<open>pyspark.errors.PySparkException\<close>, so the engine can only
  raise it where that import succeeds.
\<close>

theorem C1_engine_exception_becomes_error_string:
  assumes "errors_importable env"
    and "sql env q = Inl (PySparkException m)
         \<or> (\<exists>df. sql env q = Inr df
                \<and> get_dataframe_results env df = Inl (PySparkException m))"
  shows "QuerySparkSQLTool_run env w q = (Inr (''Error: '' @ m), emit (SqlQuery q) w)
       \<and> QuerySparkSQLTool_run_no_throw env w q
           = (Inr (''Error: '' @ m), emit (SqlQuery q) w)"
  using assms
  by (auto simp: QuerySparkSQLTool_run_def QuerySparkSQLTool_run_no_throw_def
        QuerySparkSQLTool_run_command_def Let_def)

text \<open>
A syntax error reported by \<^verbatim>\<open>spark.sql\<close>, and a division by zero reported on collecting.
\<close>

theorem C1_witness:
  "QuerySparkSQLTool_run example_env example_world ''selec''
     = (Inr ''Error: PARSE_SYNTAX_ERROR'', emit (SqlQuery ''selec'') example_world)
   \<and> QuerySparkSQLTool_run example_env example_world ''select 1/0''
     = (Inr ''Error: DIVIDE_BY_ZERO'', emit (SqlQuery ''select 1/0'') example_world)"
proof -
  have a: "errors_importable example_env"
    by (simp add: example_env_def)
  have b: "sql example_env ''selec'' = Inl (PySparkException ''PARSE_SYNTAX_ERROR'')"
    by (simp add: example_env_def example_sql_def)
  have c: "sql example_env ''select 1/0''
             = Inr (DataFrame (Inl (PySparkException ''DIVIDE_BY_ZERO'')))"
    by (simp add: example_env_def example_sql_def)
  have d: "get_dataframe_results example_env
             (DataFrame (Inl (PySparkException ''DIVIDE_BY_ZERO'')))
             = Inl (PySparkException ''DIVIDE_BY_ZERO'')"
    by (simp add: example_env_def get_dataframe_results_spec_def)
  from C1_engine_exception_becomes_error_string [OF a, of "''selec''" "''PARSE_SYNTAX_ERROR''"
      example_world] b
    C1_engine_exception_becomes_error_string [OF a, of "''select 1/0''" "''DIVIDE_BY_ZERO''"
      example_world] c d
  show ?thesis by simp
qed

text \<open>
  Claim C8. A query that the engine accepts and that produces zero rows makes \<^verbatim>\<open>_run\<close>
  return the empty string, which is no error string. The serialisation of the rows is
  the helper \<^verbatim>\<open>SparkUtils.get_dataframe_results\<close> as the specification describes it;
  \<^verbatim>\<open>_run_command\<close> applies \<^verbatim>\<open>str\<close> to what the helper returns.
\<close>

theorem C8_zero_rows_give_empty_string:
  assumes "errors_importable env"
    and "get_dataframe_results env = get_dataframe_results_spec fmt"
    and "sql env q = Inr df"
    and "collect df = Inr []"
  shows "QuerySparkSQLTool_run env w q = (Inr [], emit (SqlQuery q) w)"
  using assms
  by (simp add: QuerySparkSQLTool_run_def QuerySparkSQLTool_run_no_throw_def
        QuerySparkSQLTool_run_command_def Let_def get_dataframe_results_spec_def)

theorem C8_witness:
  "QuerySparkSQLTool_run example_env example_world ''select name from employees where 1 = 0''
     = (Inr [], emit (SqlQuery ''select name from employees where 1 = 0'') example_world)"
proof -
  have a: "errors_importable example_env"
    by (simp add: example_env_def)
  have b: "get_dataframe_results example_env
             = get_dataframe_results_spec
                 (\<lambda>rows. concat (map (concat \<circ> map (py_str \<circ> snd)) rows))"
    by (simp add: example_env_def)
  have c: "sql example_env ''select name from employees where 1 = 0''
             = Inr (DataFrame (Inr []))"
    by (simp add: example_env_def example_sql_def)
  have d: "collect (DataFrame (Inr [])) = Inr []"
    by simp
  show ?thesis
    by (rule C8_zero_rows_give_empty_string [OF a b c d])
qed

text \<open>
  Claim C10. The \<^verbatim>\<open>except\<close> clauses of \<^verbatim>\<open>_run_no_throw\<close> and of
  \<^verbatim>\<open>QueryValidationTool._run\<close> name \<^verbatim>\<open>PySparkException\<close> only. An exception \<open>e\<close> of
  any other class propagates to the caller, whether it is raised by \<^verbatim>\<open>spark.sql\<close>, by
  the serialisation of the result, by the extraction of the code blocks, or by
  \<^verbatim>\<open>[0]\<close> on an empty list of blocks; and no \<^verbatim>\<open>PySparkException\<close> ever leaves either
  tool.
\<close>

theorem C10_only_PySparkException_is_caught:
  assumes "errors_importable env" and "\<forall>m. e \<noteq> PySparkException m"
  shows "(sql env q = Inl e \<longrightarrow> fst (QuerySparkSQLTool_run_no_throw env w q) = Inl e)
       \<and> (\<forall>df. sql env q = Inr df \<and> get_dataframe_results env df = Inl e \<longrightarrow>
             fst (QuerySparkSQLTool_run_no_throw env w q) = Inl e)
       \<and> (extract_code_blocks env q = Inl e \<longrightarrow> fst (QueryValidationTool_run env w q) = Inl e)
       \<and> (extract_code_blocks env q = Inr [] \<longrightarrow>
             fst (QueryValidationTool_run env w q) = Inl IndexError)
       \<and> (\<forall>b bs. extract_code_blocks env q = Inr (b # bs) \<and> sql env b = Inl e \<longrightarrow>
             fst (QueryValidationTool_run env w q) = Inl e)
       \<and> (\<forall>m. fst (QuerySparkSQLTool_run_no_throw env w q) \<noteq> Inl (PySparkException m))
       \<and> (\<forall>m. fst (QueryValidationTool_run env w q) \<noteq> Inl (PySparkException m))"
proof -
  have 1: "sql env q = Inl e \<longrightarrow> fst (QuerySparkSQLTool_run_no_throw env w q) = Inl e"
    using assms
    by (cases e) (simp_all add: QuerySparkSQLTool_run_no_throw_def
        QuerySparkSQLTool_run_command_def Let_def)
  have 2: "\<forall>df. sql env q = Inr df \<and> get_dataframe_results env df = Inl e \<longrightarrow>
             fst (QuerySparkSQLTool_run_no_throw env w q) = Inl e"
    using assms
    by (cases e) (simp_all add: QuerySparkSQLTool_run_no_throw_def
        QuerySparkSQLTool_run_command_def Let_def)
  have 3: "extract_code_blocks env q = Inl e \<longrightarrow> fst (QueryValidationTool_run env w q) = Inl e"
    using assms by (cases e) (simp_all add: QueryValidationTool_run_def)
  have 4: "extract_code_blocks env q = Inr [] \<longrightarrow>
             fst (QueryValidationTool_run env w q) = Inl IndexError"
    using assms by (simp add: QueryValidationTool_run_def)
  have 5: "\<forall>b bs. extract_code_blocks env q = Inr (b # bs) \<and> sql env b = Inl e \<longrightarrow>
             fst (QueryValidationTool_run env w q) = Inl e"
    using assms by (cases e) (simp_all add: QueryValidationTool_run_def Let_def)
  have 6: "\<forall>m. fst (QuerySparkSQLTool_run_no_throw env w q) \<noteq> Inl (PySparkException m)"
    using assms(1)
    by (simp add: QuerySparkSQLTool_run_no_throw_def QuerySparkSQLTool_run_command_def Let_def
          split: sum.splits exn.splits)
  have 7: "\<forall>m. fst (QueryValidationTool_run env w q) \<noteq> Inl (PySparkException m)"
    using assms(1)
    by (simp add: QueryValidationTool_run_def Let_def split: sum.splits exn.splits list.splits)
  from 1 2 3 4 5 6 7 show ?thesis by blast
qed

theorem C10_witness:
  "fst (QuerySparkSQLTool_run_no_throw example_env example_world ''crash'')
     = Inl (OtherError ''ConnectionError'')
   \<and> fst (QuerySparkSQLTool_run_no_throw example_env example_world ''select slow'')
     = Inl (OtherError ''Py4JNetworkError'')
   \<and> fst (QueryValidationTool_run (example_env\<lparr>extract_code_blocks := (\<lambda>t. Inl TypeError)\<rparr>)
            example_world ''select 1'') = Inl TypeError
   \<and> fst (QueryValidationTool_run
            (example_env\<lparr>extract_code_blocks := extract_code_blocks_spec (\<lambda>t. Inr [])\<rparr>)
            example_world ''select 1'') = Inl IndexError
   \<and> fst (QueryValidationTool_run example_env example_world ''```crash```'')
     = Inl (OtherError ''ConnectionError'')"
proof -
  have a: "errors_importable example_env"
    "errors_importable (example_env\<lparr>extract_code_blocks := (\<lambda>t. Inl TypeError)\<rparr>)"
    "errors_importable
       (example_env\<lparr>extract_code_blocks := extract_code_blocks_spec (\<lambda>t. Inr [])\<rparr>)"
    by (simp_all add: example_env_def)
  have b: "\<forall>m. OtherError ''ConnectionError'' \<noteq> PySparkException m"
    "\<forall>m. OtherError ''Py4JNetworkError'' \<noteq> PySparkException m"
    "\<forall>m. TypeError \<noteq> PySparkException m"
    by simp_all
  have c: "sql example_env ''crash'' = Inl (OtherError ''ConnectionError'')"
    "sql example_env ''select slow'' = Inr (DataFrame (Inl (OtherError ''Py4JNetworkError'')))"
    by (simp_all add: example_env_def example_sql_def)
  have d: "get_dataframe_results example_env (DataFrame (Inl (OtherError ''Py4JNetworkError'')))
             = Inl (OtherError ''Py4JNetworkError'')"
    by (simp add: example_env_def get_dataframe_results_spec_def)
  have e: "extract_code_blocks (example_env\<lparr>extract_code_blocks := (\<lambda>t. Inl TypeError)\<rparr>)
             ''select 1'' = Inl TypeError"
    by simp
  have f: "extract_code_blocks
             (example_env\<lparr>extract_code_blocks := extract_code_blocks_spec (\<lambda>t. Inr [])\<rparr>)
             ''select 1'' = Inr []"
    by (simp add: extract_code_blocks_spec_def)
  have g: "extract_code_blocks example_env ''```crash```'' = Inr [''crash'']"
    by (simp add: example_env_def extract_code_blocks_spec_def)
  from C10_only_PySparkException_is_caught [OF a(1) b(1), of "''crash''" example_world] c(1)
  have 1: "fst (QuerySparkSQLTool_run_no_throw example_env example_world ''crash'')
             = Inl (OtherError ''ConnectionError'')"
    by blast
  from C10_only_PySparkException_is_caught [OF a(1) b(2), of "''select slow''" example_world]
    c(2) d
  have 2: "fst (QuerySparkSQLTool_run_no_throw example_env example_world ''select slow'')
             = Inl (OtherError ''Py4JNetworkError'')"
    by blast
  from C10_only_PySparkException_is_caught [OF a(2) b(3), of "''select 1''" example_world] e
  have 3: "fst (QueryValidationTool_run
                  (example_env\<lparr>extract_code_blocks := (\<lambda>t. Inl TypeError)\<rparr>)
                  example_world ''select 1'') = Inl TypeError"
    by blast
  from C10_only_PySparkException_is_caught [OF a(3) b(3), of "''select 1''" example_world] f
  have 4: "fst (QueryValidationTool_run
                  (example_env\<lparr>extract_code_blocks := extract_code_blocks_spec (\<lambda>t. Inr [])\<rparr>)
                  example_world ''select 1'') = Inl IndexError"
    by blast
  from C10_only_PySparkException_is_caught [OF a(1) b(1), of "''```crash```''" example_world]
    g c(1)
  have 5: "fst (QueryValidationTool_run example_env example_world ''```crash```'')
             = Inl (OtherError ''ConnectionError'')"
    by blast
  from 1 2 3 4 5 show ?thesis by blast
qed

section \<open>QueryValidationTool\<close>

text \<open>
  Claim C5. On a text with prose, a fenced block, and anything after it,
  \<^verbatim>\<open>QueryValidationTool._run\<close> sends exactly the contents of the first fenced block to
  the engine, and nothing else; it returns \<^verbatim>\<open>"OK"\<close> when the engine accepts the query
  and \<^verbatim>\<open>"Error: "\<close> followed by the engine's message when the engine raises its
  exception. The extraction is the helper \<^verbatim>\<open>AIUtils.extract_code_blocks\<close> as the
  specification describes it.
\<close>

theorem C5_validation_runs_first_fenced_block:
  assumes "errors_importable env"
    and "extract_code_blocks env = extract_code_blocks_spec fallback"
    and "fence_free pre" and "fence_free body"
  shows "snd (QueryValidationTool_run env w (pre @ fence @ body @ fence @ post))
           = emit (SqlQuery body) w
       \<and> (\<forall>df. sql env body = Inr df \<longrightarrow>
             fst (QueryValidationTool_run env w (pre @ fence @ body @ fence @ post))
               = Inr ''OK'')
       \<and> (\<forall>m. sql env body = Inl (PySparkException m) \<longrightarrow>
             fst (QueryValidationTool_run env w (pre @ fence @ body @ fence @ post))
               = Inr (''Error: '' @ m))"
proof -
  have "extract_code_blocks env (pre @ fence @ body @ fence @ post)
          = Inr (body # blocks_of (split_fence post))"
    using assms by (simp add: extract_first_block)
  with assms(1) show ?thesis
    by (simp add: QueryValidationTool_run_def Let_def split: sum.splits exn.splits)
qed

theorem C5_witness:
  "snd (QueryValidationTool_run example_env example_world
          ''Try this: ```select 1``` and then ```drop table t```'')
     = emit (SqlQuery ''select 1'') example_world
   \<and> fst (QueryValidationTool_run example_env example_world
          ''Try this: ```select 1``` and then ```drop table t```'') = Inr ''OK''
   \<and> fst (QueryValidationTool_run example_env example_world
          ''Fixed: ```selec 1``` ok?'') = Inr ''Error: PARSE_SYNTAX_ERROR''"
proof -
  have a: "errors_importable example_env"
    by (simp add: example_env_def)
  have b: "extract_code_blocks example_env = extract_code_blocks_spec (\<lambda>t. Inr [t])"
    by (simp add: example_env_def)
  have c: "fence_free ''Try this: ''" "fence_free ''select 1''"
    "fence_free ''Fixed: ''" "fence_free ''selec 1''"
    by simp_all
  have d: "sql example_env ''select 1'' = Inr (DataFrame (Inr [[(''1'', PyObj ''1'')]]))"
    "sql example_env ''selec 1'' = Inl (PySparkException ''PARSE_SYNTAX_ERROR'')"
    by (simp_all add: example_env_def example_sql_def)
  have e: "''Try this: ```select 1``` and then ```drop table t```''
             = ''Try this: '' @ fence @ ''select 1'' @ fence @ '' and then ```drop table t```''"
    "''Fixed: ```selec 1``` ok?'' = ''Fixed: '' @ fence @ ''selec 1'' @ fence @ '' ok?''"
    by (simp_all add: fence_def)
  from C5_validation_runs_first_fenced_block [OF a b c(1) c(2), of example_world
      "'' and then ```drop table t```''"]
    C5_validation_runs_first_fenced_block [OF a b c(3) c(4), of example_world "'' ok?''"]
    d
  show ?thesis unfolding e by simp
qed

section \<open>Asynchronous calls\<close>

text \<open>
  Claim C9. \<^verbatim>\<open>_arun\<close> of each of the three tools raises \<^verbatim>\<open>NotImplementedError\<close> and
  leaves the world as it was: no query is sent, no index is built, loaded or saved.
\<close>

theorem C9_arun_not_implemented:
  "QuerySparkSQLTool_arun env w q =
     (Inl (NotImplementedError ''QuerySqlDbTool does not support async''), w)
   \<and> QueryValidationTool_arun env w q =
     (Inl (NotImplementedError ''ListTablesSqlDbTool does not support async''), w)
   \<and> SimilarValueTool_arun env vector_store_dir w q =
     (Inl (NotImplementedError ''SimilarityTool does not support async''), w)"
  by (simp add: QuerySparkSQLTool_arun_def QueryValidationTool_arun_def
        SimilarValueTool_arun_def)

section \<open>VectorSearchUtil\<close>

text \<open>
  Claim C3. Let a non-empty path be given. If an index is stored under it, the search runs
  on that index: the result does not depend on the corpus, and nothing is embedded. If
  nothing is stored under it, and the library builds an index from the corpus and saves
  it, then the index is stored under the path afterwards, and a second call with the
  same corpus, path and search text loads it, embeds nothing, changes no file, and
  returns what the first call returned.
\<close>

theorem C3_persisted_index_is_loaded_not_rebuilt:
  assumes "p \<noteq> []"
  shows "(fs w p = Index i \<longrightarrow>
            vector_similarity_search env corpus (Some p) q w
              = search_first env i q (emit (LoadIndex p) w)
          \<and> build_events (log (snd (vector_similarity_search env corpus (Some p) q w)))
              = build_events (log w))
       \<and> (fs w p = Absent \<and> from_texts env corpus = Inr i \<and> save_local env p = None \<longrightarrow>
            (let r1 = vector_similarity_search env corpus (Some p) q w;
                 r2 = vector_similarity_search env corpus (Some p) q (snd r1)
             in fs (snd r1) = (fs w)(p := Index i)
              \<and> build_events (log (snd r1)) = build_events (log w) @ [corpus]
              \<and> fst r2 = fst r1
              \<and> fs (snd r2) = fs (snd r1)
              \<and> log (snd r2) = log (snd r1) @ [LoadIndex p, Search q]))"
proof (intro conjI impI)
  assume i: "fs w p = Index i"
  show "vector_similarity_search env corpus (Some p) q w
          = search_first env i q (emit (LoadIndex p) w)"
    using assms i by (rule vector_similarity_search_load)
  then show "build_events (log (snd (vector_similarity_search env corpus (Some p) q w)))
          = build_events (log w)"
    by (simp add: search_first_world)
next
  assume h: "fs w p = Absent \<and> from_texts env corpus = Inr i \<and> save_local env p = None"
  define w1 where
    "w1 = (emit (SaveIndex p) (emit (BuildIndex corpus) w))\<lparr>fs := (fs w)(p := Index i)\<rparr>"
  have first: "vector_similarity_search env corpus (Some p) q w = search_first env i q w1"
    using assms h by (simp add: vector_similarity_search_build_save w1_def)
  have stored: "fs (emit (Search q) w1) p = Index i"
    by (simp add: w1_def)
  have second: "vector_similarity_search env corpus (Some p) q (emit (Search q) w1)
                  = search_first env i q (emit (LoadIndex p) (emit (Search q) w1))"
    using assms stored by (rule vector_similarity_search_load)
  have same: "fst (search_first env i q (emit (LoadIndex p) (emit (Search q) w1)))
                = fst (search_first env i q w1)"
    by (rule search_first_fst)
  show "let r1 = vector_similarity_search env corpus (Some p) q w;
            r2 = vector_similarity_search env corpus (Some p) q (snd r1)
        in fs (snd r1) = (fs w)(p := Index i)
         \<and> build_events (log (snd r1)) = build_events (log w) @ [corpus]
         \<and> fst r2 = fst r1
         \<and> fs (snd r2) = fs (snd r1)
         \<and> log (snd r2) = log (snd r1) @ [LoadIndex p, Search q]"
    unfolding Let_def first search_first_world second same
    by (simp add: w1_def emit_def build_events_def)
qed

theorem C3_witness:
  "vector_similarity_search example_env (Some [''Zed'']) (Some ''/tmp/vs/employees_name'')
       ''Bob'' stored_world
     = (Inr ''Bob'', emit (Search ''Bob'') (emit (LoadIndex ''/tmp/vs/employees_name'') stored_world))
   \<and> fst (vector_similarity_search example_env (Some [''Alice'', ''Bob''])
            (Some ''/tmp/vs/employees_name'') ''Bob'' example_world) = Inr ''Bob''
   \<and> fst (vector_similarity_search example_env (Some [''Alice'', ''Bob''])
            (Some ''/tmp/vs/employees_name'') ''Bob''
            (snd (vector_similarity_search example_env (Some [''Alice'', ''Bob''])
                    (Some ''/tmp/vs/employees_name'') ''Bob'' example_world))) = Inr ''Bob''"
proof -
  have a: "''/tmp/vs/employees_name'' \<noteq> []"
    by simp
  have b: "fs stored_world ''/tmp/vs/employees_name'' = Index [''Alice'', ''Bob'']"
    by (simp add: stored_world_def)
  have c: "fs example_world ''/tmp/vs/employees_name'' = Absent
           \<and> from_texts example_env (Some [''Alice'', ''Bob'']) = Inr [''Alice'', ''Bob'']
           \<and> save_local example_env ''/tmp/vs/employees_name'' = None"
    by (simp add: example_world_def example_env_def example_from_texts_def)
  have d: "search_first example_env [''Alice'', ''Bob''] ''Bob'' w
             = (Inr ''Bob'', emit (Search ''Bob'') w)" for w
    by (simp add: search_first_def example_env_def example_search_def Let_def)
  have e: "fst (vector_similarity_search example_env (Some [''Alice'', ''Bob''])
                  (Some ''/tmp/vs/employees_name'') ''Bob'' example_world) = Inr ''Bob''"
    by (simp add: vector_similarity_search_build_save [OF a] c d)
  note 1 = C3_persisted_index_is_loaded_not_rebuilt [OF a, of stored_world
      "[''Alice'', ''Bob'']" example_env "Some [''Zed'']" "''Bob''"]
  note 2 = C3_persisted_index_is_loaded_not_rebuilt [OF a, of example_world
      "[''Alice'', ''Bob'']" example_env "Some [''Alice'', ''Bob'']" "''Bob''"]
  from 1 b have 3: "vector_similarity_search example_env (Some [''Zed''])
       (Some ''/tmp/vs/employees_name'') ''Bob'' stored_world
     = search_first example_env [''Alice'', ''Bob''] ''Bob''
         (emit (LoadIndex ''/tmp/vs/employees_name'') stored_world)"
    by blast
  from 2 c have 4: "fst (vector_similarity_search example_env (Some [''Alice'', ''Bob''])
            (Some ''/tmp/vs/employees_name'') ''Bob''
            (snd (vector_similarity_search example_env (Some [''Alice'', ''Bob''])
                    (Some ''/tmp/vs/employees_name'') ''Bob'' example_world)))
       = fst (vector_similarity_search example_env (Some [''Alice'', ''Bob''])
            (Some ''/tmp/vs/employees_name'') ''Bob'' example_world)"
    unfolding Let_def by blast
  from 3 4 e show ?thesis by (simp add: d)
qed

text \<open>
  Claim C4, as stated, fails: \<^verbatim>\<open>vector_similarity_search\<close> makes no check of the corpus
  and raises no error of its own. On an empty or a missing corpus the caller sees the
  exception of the library, here \<^verbatim>\<open>IndexError\<close> and \<^verbatim>\<open>TypeError\<close>.
\<close>

theorem C4_counterexample:
  "fst (vector_similarity_search example_env (Some []) None ''Bob'' example_world)
     = Inl IndexError
   \<and> fst (vector_similarity_search example_env None None ''Bob'' example_world)
     = Inl TypeError"
  by (simp add: vector_similarity_search_def example_env_def example_from_texts_def Let_def)

text \<open>
  Claim C4, amended. When the corpus is null or empty and no file exists under the
  path (or no path is given), the corpus is handed to the library's index builder as it
  is, and an exception raised by the builder reaches the caller unchanged; nothing is
  saved and no search is made.
\<close>

theorem C4_builder_error_is_surfaced:
  assumes "corpus = None \<or> corpus = Some []"
    and "\<forall>p. path = Some p \<longrightarrow> fs w p = Absent"
    and "from_texts env corpus = Inl e"
  shows "vector_similarity_search env corpus path q w = (Inl e, emit (BuildIndex corpus) w)"
  using assms(2,3)
  by (cases path) (simp_all add: vector_similarity_search_def path_exists_def Let_def)

theorem C4_witness:
  "vector_similarity_search example_env (Some []) (Some ''/tmp/vs/employees_name'') ''Bob''
       example_world
     = (Inl IndexError, emit (BuildIndex (Some [])) example_world)
   \<and> vector_similarity_search example_env None None ''Bob'' example_world
     = (Inl TypeError, emit (BuildIndex None) example_world)"
proof -
  have a: "Some ([]::string list) = None \<or> Some ([]::string list) = Some []"
    and a': "(None::string list option) = None \<or> (None::string list option) = Some []"
    by simp_all
  have b: "\<forall>p. Some ''/tmp/vs/employees_name'' = Some p \<longrightarrow> fs example_world p = Absent"
    and b': "\<forall>p. None = Some p \<longrightarrow> fs example_world p = Absent"
    by (simp_all add: example_world_def)
  have c: "from_texts example_env (Some []) = Inl IndexError"
    and c': "from_texts example_env None = Inl TypeError"
    by (simp_all add: example_env_def example_from_texts_def)
  from C4_builder_error_is_surfaced [OF a b c] C4_builder_error_is_surfaced [OF a' b' c']
  show ?thesis by blast
qed

section \<open>SimilarValueTool\<close>

text \<open>
  Claim C2, at \<^verbatim>\<open>vector_store_dir = None\<close> and the input \<^verbatim>\<open>"Bob|name|employees"\<close>: the
  tool sends the query for the distinct names and collects them, and then line 155
  raises \<^verbatim>\<open>TypeError\<close>, since it adds \<^verbatim>\<open>None\<close> to a string. No value is returned.
\<close>

theorem C2_unconfigured_directory_raises_TypeError:
  "SimilarValueTool_run example_env None example_world ''Bob|name|employees''
     = (Inl TypeError,
        emit (SqlQuery ''select distinct `name` from employees'') example_world)"
  by (simp add: SimilarValueTool_run_def distinct_query_def example_env_def example_sql_def
        example_rows_def row_get_def Let_def)

text \<open>
  Claim C7. On an input of three fields, when a vector-store directory is configured,
  \<^verbatim>\<open>_run\<close> is the vector search with no corpus and no path, and sends no query to the
  SQL engine.
\<close>

theorem C7_configured_directory_skips_query:
  assumes "split_on CHR ''|'' inputs = [search_text, col, temp_name]"
    and "truthy vector_store_dir"
  shows "SimilarValueTool_run env vector_store_dir w inputs
           = vector_similarity_search env None None search_text w
       \<and> sql_events (log (snd (SimilarValueTool_run env vector_store_dir w inputs)))
           = sql_events (log w)"
  using assms by (simp add: SimilarValueTool_run_def vector_similarity_search_no_sql)

theorem C7_witness:
  "SimilarValueTool_run example_env (Some ''/tmp/vs/'') example_world ''Bob|name|employees''
     = vector_similarity_search example_env None None ''Bob'' example_world
   \<and> sql_events (log (snd (SimilarValueTool_run example_env (Some ''/tmp/vs/'') example_world
                              ''Bob|name|employees''))) = []"
proof -
  have a: "split_on CHR ''|'' ''Bob|name|employees'' = [''Bob'', ''name'', ''employees'']"
    by simp
  have b: "truthy (Some ''/tmp/vs/'')"
    by simp
  have c: "sql_events (log example_world) = []"
    by (simp add: example_world_def sql_events_def)
  note C7_configured_directory_skips_query [OF a b, of example_env example_world]
  then show ?thesis unfolding c .
qed

text \<open>
  Claim C6, as stated, fails: on \<^verbatim>\<open>"x|y"\<close> the tool raises the \<^verbatim>\<open>IndexError\<close> of
  \<^verbatim>\<open>input_lst[2]\<close>.
\<close>

theorem C6_counterexample:
  "fst (SimilarValueTool_run example_env None example_world ''x|y'') = Inl IndexError"
  by (simp add: SimilarValueTool_run_def)

text \<open>
  Claim C6, amended. On an input of fewer than three fields \<^verbatim>\<open>_run\<close> raises
  \<^verbatim>\<open>IndexError\<close>, from indexing the list of fields, before any query is sent and before
  any index is built; the input is not truncated and nothing is returned.
\<close>

theorem C6_too_few_fields_raise_IndexError:
  assumes "length (split_on CHR ''|'' inputs) < 3"
  shows "SimilarValueTool_run env vector_store_dir w inputs = (Inl IndexError, w)"
proof (cases "split_on CHR ''|'' inputs")
  case Nil
  then show ?thesis by (simp add: SimilarValueTool_run_def)
next
  case (Cons a as)
  with assms show ?thesis
    by (cases as; cases "tl as") (auto simp: SimilarValueTool_run_def)
qed

theorem C6_witness:
  "length (split_on CHR ''|'' ''x|y'') < 3
   \<and> SimilarValueTool_run example_env None example_world ''x|y''
       = (Inl IndexError, example_world)"
proof -
  have a: "length (split_on CHR ''|'' ''x|y'') < 3"
    by simp
  from a C6_too_few_fields_raise_IndexError [OF a, of example_env None example_world]
  show ?thesis by simp
qed

end
